theory Spec2Isabelle
  imports Complex_Main
begin

section \<open>Data model of the recorder (class RealTimeDroneController)\<close>

text \<open>
  The controller keeps its movements in Python dictionaries with a fixed set of keys;
  each becomes a record. Kinds and directions stay strings, as in the source, so that
  the branches of every \<open>if\<close>/\<open>elif\<close> chain, including the one no test matches, are
  branches of the model. Python floats (\<open>time.time()\<close>, distances) are read as exact
  rationals: rounding error of the binary representation is outside the model.
\<close>

record movement =
  mv_type :: string
  mv_direction :: string
  mv_start_time :: rat
  mv_start_yaw :: int

record movement_event =
  ev_id :: string
  ev_type :: string
  ev_direction :: string
  ev_distance :: rat
  ev_start_yaw :: int
  ev_timestamp :: string

record waypoint =
  wp_id :: string
  wp_name :: string
  movements_to_here :: "movement_event list"

text \<open>Every call made on the Tello object, in the order it is made.\<close>

datatype tello_call =
    Connect
  | Query string
  | Takeoff
  | Land
  | RcControl int int int int

record controller =
  tello :: "tello_call list"
  is_connected :: bool
  is_flying :: bool
  movement_speed :: int
  rotation_speed :: int
  current_movement :: "movement option"
  waypoints :: "waypoint list"
  current_waypoint_movements :: "movement_event list"
  waypoint_counter :: nat
  add_movement :: bool
  data_file :: string

text \<open>
  What the outside world answers during one call of a method: the replies of the vehicle
  (already parsed; \<open>None\<close> when the query raises or holds no number), whether a command
  raises, the clock, the identifier drawn by \<open>uuid.uuid4()\<close>, the text of
  \<open>datetime.now().isoformat()\<close> and the line typed at a prompt (already stripped).
\<close>

record env =
  attitude_yaw :: "int option"
  height_dm :: "int option"
  battery :: "int option"
  connect_raises :: bool
  takeoff_raises :: bool
  land_raises :: bool
  rc_raises :: bool
  clock :: rat
  uuid4 :: string
  isoformat_now :: string
  typed_name :: string

record drone_state =
  ds_yaw :: int
  ds_height :: int
  ds_battery :: int

definition init :: "string \<Rightarrow> controller" where
  "init stamp =
     \<lparr>tello = [], is_connected = False, is_flying = False,
      movement_speed = 30, rotation_speed = 30,
      current_movement = None, waypoints = [], current_waypoint_movements = [],
      waypoint_counter = 0, add_movement = False,
      data_file = ''drone_movements_'' @ stamp @ ''.json''\<rparr>"

definition call_tello :: "tello_call \<Rightarrow> controller \<Rightarrow> controller" where
  "call_tello c s = s\<lparr>tello := tello s @ [c]\<rparr>"

section \<open>Telemetry\<close>

definition get_drone_state :: "env \<Rightarrow> controller \<Rightarrow> drone_state \<times> controller" where
  "get_drone_state e s =
     (let s1 = call_tello (Query ''attitude?'') s;
          yaw = (case attitude_yaw e of None \<Rightarrow> 0 | Some y \<Rightarrow> y);
          s2 = call_tello (Query ''height?'') s1;
          height = (case height_dm e of None \<Rightarrow> 0 | Some h \<Rightarrow> h * 10);
          s3 = call_tello (Query ''battery?'') s2;
          bat = (case battery e of None \<Rightarrow> 0 | Some b \<Rightarrow> b)
      in (\<lparr>ds_yaw = yaw, ds_height = height, ds_battery = bat\<rparr>, s3))"

section \<open>Movement recorder\<close>

text \<open>
  \<open>send_rc_control\<close> inside a \<open>try\<close>: the call is made (and logged) and either returns,
  \<open>Inr\<close>, or raises, \<open>Inl\<close>; both carry the state reached at that point.
\<close>

definition send_rc_control ::
  "env \<Rightarrow> int \<Rightarrow> int \<Rightarrow> int \<Rightarrow> int \<Rightarrow> controller \<Rightarrow> controller + controller" where
  "send_rc_control e a b c d s =
     (let s' = call_tello (RcControl a b c d) s in if rc_raises e then Inl s' else Inr s')"

text \<open>The body of the \<open>try\<close> block of \<open>start_movement\<close> (lines 167 to 200).\<close>

definition start_rc :: "env \<Rightarrow> string \<Rightarrow> string \<Rightarrow> controller \<Rightarrow> controller + controller" where
  "start_rc e direction movement_type s =
     (if movement_type = ''move'' then
        (let s1 = s\<lparr>add_movement := True\<rparr> in
         if direction = ''forward'' then send_rc_control e 0 (movement_speed s1) 0 0 s1
         else if direction = ''backward'' then send_rc_control e 0 (- movement_speed s1) 0 0 s1
         else if direction = ''left'' then send_rc_control e (- movement_speed s1) 0 0 0 s1
         else if direction = ''right'' then send_rc_control e (movement_speed s1) 0 0 0 s1
         else Inr s1)
      else if movement_type = ''lift'' then
        (let s1 = s\<lparr>add_movement := True\<rparr> in
         if direction = ''up'' then send_rc_control e 0 0 (movement_speed s1) 0 s1
         else if direction = ''down'' then send_rc_control e 0 0 (- movement_speed s1) 0 s1
         else Inr s1)
      else if movement_type = ''rotate'' then
        (let s1 = s\<lparr>add_movement := False\<rparr> in
         if direction = ''anticlockwise'' then send_rc_control e 0 0 0 (- rotation_speed s1) s1
         else if direction = ''clockwise'' then send_rc_control e 0 0 0 (rotation_speed s1) s1
         else Inr s1)
      else Inr s)"

definition start_movement :: "env \<Rightarrow> string \<Rightarrow> string \<Rightarrow> controller \<Rightarrow> controller" where
  "start_movement e direction movement_type s =
     (if current_movement s \<noteq> None then s
      else
        (let (drone_state, s1) = get_drone_state e s;
             start_yaw = ds_yaw drone_state;
             s2 = s1\<lparr>current_movement :=
                      Some \<lparr>mv_type = movement_type, mv_direction = direction,
                            mv_start_time = clock e, mv_start_yaw = start_yaw\<rparr>\<rparr>
         in case start_rc e direction movement_type s2 of
              Inr s3 \<Rightarrow> s3
            | Inl s3 \<Rightarrow> s3\<lparr>current_movement := None\<rparr>))"

text \<open>
  Python's \<open>round(x, 2)\<close>: the closest multiple of one hundredth, the even one of two
  that are equally close.
\<close>

definition round2 :: "rat \<Rightarrow> rat" where
  "round2 x =
     (let y = x * 100; f = \<lfloor>y\<rfloor>; d = y - of_int f
      in of_int (if d < 1 / 2 then f else if 1 / 2 < d then f + 1
                 else if even f then f else f + 1) / 100)"

text \<open>
  The halt command of \<open>stop_movement\<close> sits in a \<open>try\<close> whose handler only prints:
  whether it raises or not, execution goes on from the same state.
\<close>

definition halt :: "env \<Rightarrow> controller \<Rightarrow> controller" where
  "halt e s = (case send_rc_control e 0 0 0 0 s of Inr s' \<Rightarrow> s' | Inl s' \<Rightarrow> s')"

definition stop_movement :: "env \<Rightarrow> controller \<Rightarrow> controller" where
  "stop_movement e s =
     (case current_movement s of
        None \<Rightarrow> s
      | Some m \<Rightarrow>
          if \<not> add_movement s then (halt e s)\<lparr>current_movement := None\<rparr>
          else
            (let s1 = halt e s;
                 end_time = clock e;
                 duration = end_time - mv_start_time m;
                 distance = of_int (movement_speed s1) * duration;
                 movement_event =
                   \<lparr>ev_id = uuid4 e, ev_type = mv_type m, ev_direction = mv_direction m,
                    ev_distance = round2 distance, ev_start_yaw = mv_start_yaw m,
                    ev_timestamp = isoformat_now e\<rparr>
             in s1\<lparr>current_waypoint_movements :=
                      current_waypoint_movements s1 @ [movement_event],
                    current_movement := None\<rparr>))"

section \<open>Waypoint builder\<close>

text \<open>Decimal text of a number, as \<open>str\<close> gives it, and padded to three digits (\<open>:03d\<close>).\<close>

definition digit :: "nat \<Rightarrow> char" where
  "digit d = char_of (48 + d)"

fun decimal :: "nat \<Rightarrow> string" where
  "decimal n = (if n < 10 then [digit n] else decimal (n div 10) @ [digit (n mod 10)])"

definition pad3 :: "nat \<Rightarrow> string" where
  "pad3 n = (let t = decimal n in replicate (3 - length t) (CHR ''0'') @ t)"

text \<open>Python's truth value of an optional string: \<open>None\<close> and the empty string are false.\<close>

fun truthy :: "string option \<Rightarrow> bool" where
  "truthy None = False"
| "truthy (Some t) = (t \<noteq> [])"

definition mark_waypoint :: "env \<Rightarrow> string option \<Rightarrow> bool \<Rightarrow> controller \<Rightarrow> controller" where
  "mark_waypoint e name auto_generated s =
     (let name1 =
            (if \<not> auto_generated \<and> \<not> truthy name then
               (let typed = Some (typed_name e) in
                if \<not> truthy typed then Some (''Waypoint_'' @ decimal (waypoint_counter s + 1))
                else typed)
             else name);
          counter = waypoint_counter s + 1;
          waypoint_id = ''WP_'' @ pad3 counter;
          waypoint =
            \<lparr>wp_id = waypoint_id,
             wp_name = (case name1 of
                          Some t \<Rightarrow> if t \<noteq> [] then t else ''Waypoint_'' @ decimal counter
                        | None \<Rightarrow> ''Waypoint_'' @ decimal counter),
             movements_to_here = current_waypoint_movements s\<rparr>
      in s\<lparr>waypoint_counter := counter,
           waypoints := waypoints s @ [waypoint],
           current_waypoint_movements := []\<rparr>)"

section \<open>Connection, takeoff and landing\<close>

definition connect_drone :: "env \<Rightarrow> controller \<Rightarrow> bool \<times> controller" where
  "connect_drone e s =
     (let s1 = call_tello Connect s in
      if connect_raises e then (False, s1)
      else (True, (call_tello (Query ''battery?'') s1)\<lparr>is_connected := True\<rparr>))"

definition takeoff :: "env \<Rightarrow> controller \<Rightarrow> bool \<times> controller" where
  "takeoff e s =
     (if \<not> is_connected s then (False, s)
      else
        (let s1 = call_tello Takeoff s in
         if takeoff_raises e then (False, s1)
         else (True, mark_waypoint e (Some ''START'') True (s1\<lparr>is_flying := True\<rparr>))))"

definition land :: "env \<Rightarrow> controller \<Rightarrow> controller" where
  "land e s =
     (if is_flying s then
        (let s1 = call_tello Land s in
         if land_raises e then s1 else s1\<lparr>is_flying := False\<rparr>)
      else s)"

section \<open>Session serializer\<close>

text \<open>
  The document handed to \<open>json.dump\<close>. A Python dictionary keeps its keys in insertion
  order, so an object is an association list.
\<close>

datatype json =
    JStr string
  | JInt int
  | JNum rat
  | JArr "json list"
  | JObj "(string \<times> json) list"

text \<open>The body of the loop over \<open>waypoint['movements_to_here']\<close> (lines 287 to 323).\<close>

definition move_yaw :: "movement_event \<Rightarrow> int" where
  "move_yaw movement =
     (let yaw = ev_start_yaw movement;
          yaw = (if ev_direction movement = ''forward'' then yaw + 0
                 else if ev_direction movement = ''backward'' then yaw + 180
                 else if ev_direction movement = ''left'' then yaw - 90
                 else if ev_direction movement = ''right'' then yaw + 90
                 else yaw)
      in if yaw > 180 then yaw - 360
         else if yaw < - 180 then yaw + 360
         else yaw)"

definition process_movement :: "movement_event \<Rightarrow> json" where
  "process_movement movement =
     (if ev_type movement = ''move'' then
        JObj [(''id'', JStr (ev_id movement)),
              (''type'', JStr (ev_type movement)),
              (''yaw'', JInt (move_yaw movement)),
              (''distance'', JNum (ev_distance movement)),
              (''timestamp'', JStr (ev_timestamp movement))]
      else
        JObj [(''id'', JStr (ev_id movement)),
              (''type'', JStr (ev_type movement)),
              (''direction'', JStr (ev_direction movement)),
              (''distance'', JNum (ev_distance movement)),
              (''timestamp'', JStr (ev_timestamp movement))])"

definition process_waypoint :: "waypoint \<Rightarrow> json" where
  "process_waypoint wp =
     JObj [(''id'', JStr (wp_id wp)),
           (''name'', JStr (wp_name wp)),
           (''movements_to_here'', JArr (map process_movement (movements_to_here wp)))]"

definition session_data :: "controller \<Rightarrow> json" where
  "session_data s =
     JObj [(''session_info'',
            JObj [(''total_waypoints'', JInt (int (length (waypoints s)))),
                  (''total_movements'',
                   JInt (int (sum_list (map (\<lambda>wp. length (movements_to_here wp)) (waypoints s)))))]),
           (''waypoints'', JArr (map process_waypoint (waypoints s)))]"

text \<open>Reading a document back: the value under a key, and the items of an array.\<close>

fun field :: "string \<Rightarrow> json \<Rightarrow> json option" where
  "field k (JObj kvs) = map_of kvs k"
| "field k _ = None"

fun keys :: "json \<Rightarrow> string list" where
  "keys (JObj kvs) = map fst kvs"
| "keys _ = []"

fun items :: "json option \<Rightarrow> json list" where
  "items (Some (JArr xs)) = xs"
| "items _ = []"

definition doc_waypoints :: "json \<Rightarrow> json list" where
  "doc_waypoints doc = items (field ''waypoints'' doc)"

definition doc_movements :: "json \<Rightarrow> json list" where
  "doc_movements wp = items (field ''movements_to_here'' wp)"

definition doc_info :: "string \<Rightarrow> json \<Rightarrow> json option" where
  "doc_info k doc = (case field ''session_info'' doc of Some i \<Rightarrow> field k i | None \<Rightarrow> None)"

text \<open>
  The file system under \<open>open(self.data_file, 'w')\<close> and \<open>json.dump(data, f, indent=2)\<close>.
  Opening for writing creates the file or empties it; \<open>json.dump\<close> then writes the text
  piece by piece into that same file. A file therefore holds a whole document, or the
  first characters of one when a write raised on the way.
\<close>

datatype file_content =
    Whole json
  | Prefix nat json

datatype io_outcome =
    OpenRaises
  | WriteRaises nat
  | WriteOk

type_synonym files = "string \<Rightarrow> file_content option"

text \<open>The \<open>with\<close> block: the files afterwards, and whether it raised.\<close>

definition dump_to_file :: "io_outcome \<Rightarrow> string \<Rightarrow> json \<Rightarrow> files \<Rightarrow> files \<times> bool" where
  "dump_to_file io path data fs =
     (case io of
        OpenRaises \<Rightarrow> (fs, True)
      | WriteRaises n \<Rightarrow> (fs(path \<mapsto> Prefix n data), True)
      | WriteOk \<Rightarrow> (fs(path \<mapsto> Whole data), False))"

datatype storage_error = StorageError

text \<open>
  \<open>save_to_json\<close> as its caller sees it: \<open>Inl\<close> would be an exception leaving the method.
  The handler \<open>except Exception\<close> prints and falls through, so both branches return.
\<close>

definition save_to_json :: "io_outcome \<Rightarrow> controller \<Rightarrow> files \<Rightarrow> storage_error + files" where
  "save_to_json io s fs =
     (let data = session_data s in
      case dump_to_file io (data_file s) data fs of
        (fs', False) \<Rightarrow> Inr fs'
      | (fs', True) \<Rightarrow> Inr fs')"

section \<open>Backward traversal\<close>

text \<open>
  The module \<open>waypoint_navigation\<close> (class \<open>WaypointNavigationManager\<close>), which plans
  and replays a path, is imported by \<open>navigation_interface.py\<close> and is not among the
  sources. What this section needs of it is taken from the specification.
\<close>

text \<open>Modelled from the spec: the direction of a Lift, "direction in {up, down}" (section 3).\<close>

datatype lift_direction = Up | Down

text \<open>
  Modelled from the spec: the persisted MovementEvent of section 3, missing with
  \<open>waypoint_navigation\<close>. A Move has an id, a heading in degrees, a distance and a
  timestamp; a Lift has an id, a direction, a distance and a timestamp.
\<close>

datatype nav_event =
    Move string int rat string
  | Lift string lift_direction rat string

text \<open>
  Modelled from the spec: the normalization missing with \<open>waypoint_navigation\<close>,
  "normalized into (-180,180] by adding/subtracting 360 as needed" (section 4.3): the one
  representative of the heading modulo 360 in that interval.
\<close>

definition normalize_heading :: "int \<Rightarrow> int" where
  "normalize_heading h = 180 - (180 - h) mod 360"

text \<open>
  Modelled from the spec: the flip of a Lift missing with \<open>waypoint_navigation\<close>,
  "direction flips (up, down)" (section 4.4).
\<close>

fun flip :: "lift_direction \<Rightarrow> lift_direction" where
  "flip Up = Down"
| "flip Down = Up"

text \<open>
  Modelled from the spec: the inversion missing with \<open>waypoint_navigation\<close>, "Move:
  heading += 180, normalized into (-180,180]; distance unchanged. Lift: direction flips;
  distance unchanged" (section 4.4).
\<close>

fun invert :: "nav_event \<Rightarrow> nav_event" where
  "invert (Move i heading distance t) = Move i (normalize_heading (heading + 180)) distance t"
| "invert (Lift i direction distance t) = Lift i (flip direction) distance t"

text \<open>
  Modelled from the spec: the distance of a persisted event, which section 4.4 leaves
  unchanged under inversion.
\<close>

fun distance_of :: "nav_event \<Rightarrow> rat" where
  "distance_of (Move i heading distance t) = distance"
| "distance_of (Lift i direction distance t) = distance"

text \<open>
  Modelled from the spec: the invariant of section 3 on a persisted event, "for Move,
  resultant absolute heading in (-180,180] degrees".
\<close>

fun well_formed :: "nav_event \<Rightarrow> bool" where
  "well_formed (Move i heading distance t) = (- 180 < heading \<and> heading \<le> 180)"
| "well_formed (Lift i direction distance t) = True"

text \<open>
  Modelled from the spec: the same event with its heading written in (-180,180], the
  interval section 3 gives for a Move; a Lift is left as it is.
\<close>

fun canonical :: "nav_event \<Rightarrow> nav_event" where
  "canonical (Move i heading distance t) = Move i (normalize_heading heading) distance t"
| "canonical (Lift i direction distance t) = Lift i direction distance t"

section \<open>States a controller can be in\<close>

text \<open>
  The methods are called one after another on a fresh controller; \<open>reachable\<close> holds
  of every state such a sequence of calls can produce, whatever the outside world
  answers. The flag \<open>add_movement\<close> is written only by \<open>start_movement\<close>, together
  with the slot, so in a reachable state it agrees with the kind of the active movement.
\<close>

definition slot_consistent :: "controller \<Rightarrow> bool" where
  "slot_consistent s =
     (case current_movement s of
        None \<Rightarrow> True
      | Some m \<Rightarrow>
          if mv_type m = ''rotate'' then \<not> add_movement s
          else if mv_type m = ''move'' \<or> mv_type m = ''lift'' then add_movement s
          else True)"

inductive reachable :: "controller \<Rightarrow> bool" where
  fresh: "reachable (init stamp)"
| connected: "reachable s \<Longrightarrow> reachable (snd (connect_drone e s))"
| taken_off: "reachable s \<Longrightarrow> reachable (snd (takeoff e s))"
| landed: "reachable s \<Longrightarrow> reachable (land e s)"
| started: "reachable s \<Longrightarrow> reachable (start_movement e direction movement_type s)"
| stopped: "reachable s \<Longrightarrow> reachable (stop_movement e s)"
| marked: "reachable s \<Longrightarrow> reachable (mark_waypoint e name auto_generated s)"

text \<open>An outside world for the examples: the vehicle answers and nothing raises.\<close>

definition sample_env :: "rat \<Rightarrow> env" where
  "sample_env t =
     \<lparr>attitude_yaw = Some 45, height_dm = Some 10, battery = Some 80,
      connect_raises = False, takeoff_raises = False, land_raises = False,
      rc_raises = False, clock = t, uuid4 = ''u1'',
      isoformat_now = ''2025-06-01T12:00:00'', typed_name = ''Kitchen''\<rparr>"

section \<open>The serializer's rule as the specification words it\<close>

text \<open>
  The specification's table of offsets (section 4.3): forward 0, backward 180, left -90,
  right +90 degrees. It is compared with \<open>move_yaw\<close>, which follows the source.
\<close>

definition offset :: "string \<Rightarrow> int" where
  "offset direction =
     (if direction = ''forward'' then 0
      else if direction = ''backward'' then 180
      else if direction = ''left'' then - 90
      else if direction = ''right'' then 90
      else 0)"

text \<open>Recorded events and a session for the examples.\<close>

definition boundary_move :: movement_event where
  "boundary_move =
     \<lparr>ev_id = ''e0'', ev_type = ''move'', ev_direction = ''left'', ev_distance = 45,
      ev_start_yaw = - 90, ev_timestamp = ''2025-06-01T12:00:00''\<rparr>"

definition sample_move :: movement_event where
  "sample_move =
     \<lparr>ev_id = ''e1'', ev_type = ''move'', ev_direction = ''right'', ev_distance = 429 / 100,
      ev_start_yaw = 170, ev_timestamp = ''2025-06-01T12:00:01''\<rparr>"

definition sample_lift :: movement_event where
  "sample_lift =
     \<lparr>ev_id = ''e2'', ev_type = ''lift'', ev_direction = ''up'', ev_distance = 20,
      ev_start_yaw = 170, ev_timestamp = ''2025-06-01T12:00:05''\<rparr>"

definition sample_session :: controller where
  "sample_session =
     (init ''t'')\<lparr>waypoints :=
        [\<lparr>wp_id = ''WP_001'', wp_name = ''START'', movements_to_here = []\<rparr>,
         \<lparr>wp_id = ''WP_002'', wp_name = ''Kitchen'',
          movements_to_here = [sample_move, sample_lift]\<rparr>],
        waypoint_counter := 2\<rparr>"

section \<open>A mapping session\<close>

text \<open>
  \<open>run\<close> connects and takes off on a fresh controller and gives up when either fails.
  Only then does \<open>handle_keypress\<close> start and stop movements and mark waypoints; the
  cleanup stops the active movement, marks a last waypoint and lands. \<open>session\<close> holds
  of every state of the controller from the successful takeoff on.
\<close>

inductive session :: "controller \<Rightarrow> bool" where
  airborne: "connect_drone e1 (init stamp) = (True, s0) \<Longrightarrow> takeoff e2 s0 = (True, s) \<Longrightarrow> session s"
| moving: "session s \<Longrightarrow> session (start_movement e direction movement_type s)"
| stopping: "session s \<Longrightarrow> session (stop_movement e s)"
| marking: "session s \<Longrightarrow> session (mark_waypoint e name auto_generated s)"
| landing: "session s \<Longrightarrow> session (land e s)"

text \<open>The waypoint \<open>takeoff\<close> marks: \<open>mark_waypoint("START", auto_generated=True)\<close>.\<close>

definition origin :: waypoint where
  "origin = \<lparr>wp_id = ''WP_001'', wp_name = ''START'', movements_to_here = []\<rparr>"

text \<open>A directory that holds no file yet.\<close>

definition no_files :: files where
  "no_files = Map.empty"

section \<open>The active-movement slot and its flag\<close>

lemma send_rc_control_slot:
  "send_rc_control e a b c d s = Inr s' \<Longrightarrow>
     current_movement s' = current_movement s \<and> add_movement s' = add_movement s"
  by (auto simp: send_rc_control_def call_tello_def Let_def split: if_splits)

lemma start_rc_slot:
  "start_rc e direction movement_type s = Inr s' \<Longrightarrow> current_movement s' = current_movement s"
  by (auto simp: start_rc_def Let_def dest!: send_rc_control_slot split: if_splits)

lemma start_rc_flag:
  "start_rc e direction movement_type s = Inr s' \<Longrightarrow>
     add_movement s' =
       (if movement_type = ''move'' \<or> movement_type = ''lift'' then True
        else if movement_type = ''rotate'' then False else add_movement s)"
  by (auto simp: start_rc_def Let_def dest!: send_rc_control_slot split: if_splits)

lemma start_rc_raised_slot:
  "start_rc e direction movement_type s = Inl s' \<Longrightarrow> current_movement s' = current_movement s"
  by (auto simp: start_rc_def send_rc_control_def call_tello_def Let_def split: if_splits)

lemma get_drone_state_slot:
  "current_movement (snd (get_drone_state e s)) = current_movement s
   \<and> add_movement (snd (get_drone_state e s)) = add_movement s"
  by (simp add: get_drone_state_def call_tello_def Let_def)

lemma slot_consistent_start:
  assumes "slot_consistent s"
  shows "slot_consistent (start_movement e direction movement_type s)"
proof (cases "current_movement s")
  case (Some m)
  then have "start_movement e direction movement_type s = s"
    by (simp add: start_movement_def)
  with assms show ?thesis by simp
next
  case None
  define s2 where "s2 = (snd (get_drone_state e s))\<lparr>current_movement :=
      Some \<lparr>mv_type = movement_type, mv_direction = direction,
            mv_start_time = clock e, mv_start_yaw = ds_yaw (fst (get_drone_state e s))\<rparr>\<rparr>"
  have unfold: "start_movement e direction movement_type s =
      (case start_rc e direction movement_type s2 of
         Inr s3 \<Rightarrow> s3 | Inl s3 \<Rightarrow> s3\<lparr>current_movement := None\<rparr>)"
    using None by (simp add: start_movement_def s2_def split_beta Let_def)
  show ?thesis
  proof (cases "start_rc e direction movement_type s2")
    case (Inl s3)
    then show ?thesis by (simp add: unfold slot_consistent_def)
  next
    case (Inr s3)
    from start_rc_slot [OF Inr] have "current_movement s3 = current_movement s2" .
    moreover from start_rc_flag [OF Inr] have "add_movement s3 =
       (if movement_type = ''move'' \<or> movement_type = ''lift'' then True
        else if movement_type = ''rotate'' then False else add_movement s2)" .
    moreover have "start_movement e direction movement_type s = s3"
      by (simp add: unfold Inr)
    moreover have "current_movement s2 = Some \<lparr>mv_type = movement_type, mv_direction = direction,
            mv_start_time = clock e, mv_start_yaw = ds_yaw (fst (get_drone_state e s))\<rparr>"
      by (simp add: s2_def)
    ultimately show ?thesis
      by (simp add: slot_consistent_def)
  qed
qed

lemma halt_eq: "halt e s = s\<lparr>tello := tello s @ [RcControl 0 0 0 0]\<rparr>"
  by (simp add: halt_def send_rc_control_def call_tello_def Let_def)

lemma slot_consistent_stop: "slot_consistent (stop_movement e s)"
  by (simp add: stop_movement_def slot_consistent_def halt_eq Let_def split: option.splits)

lemma mark_waypoint_slot:
  "current_movement (mark_waypoint e name auto_generated s) = current_movement s
   \<and> add_movement (mark_waypoint e name auto_generated s) = add_movement s"
  by (simp add: mark_waypoint_def Let_def)

lemma slot_consistent_same:
  "slot_consistent s \<Longrightarrow> current_movement s' = current_movement s \<Longrightarrow>
     add_movement s' = add_movement s \<Longrightarrow> slot_consistent s'"
  by (auto simp: slot_consistent_def split: option.splits)

lemma slot_consistent_mark:
  "slot_consistent s \<Longrightarrow> slot_consistent (mark_waypoint e name auto_generated s)"
  by (erule slot_consistent_same) (simp_all add: mark_waypoint_slot)

lemma slot_consistent_connect: "slot_consistent s \<Longrightarrow> slot_consistent (snd (connect_drone e s))"
  by (erule slot_consistent_same) (simp_all add: connect_drone_def call_tello_def Let_def)

lemma slot_consistent_takeoff: "slot_consistent s \<Longrightarrow> slot_consistent (snd (takeoff e s))"
  by (erule slot_consistent_same)
    (simp_all add: takeoff_def call_tello_def Let_def mark_waypoint_slot)

lemma slot_consistent_land: "slot_consistent s \<Longrightarrow> slot_consistent (land e s)"
  by (erule slot_consistent_same) (simp_all add: land_def call_tello_def Let_def)

lemma reachable_slot_consistent: "reachable s \<Longrightarrow> slot_consistent s"
proof (induction rule: reachable.induct)
  case (fresh stamp)
  show ?case by (simp add: slot_consistent_def init_def)
qed (simp_all add: slot_consistent_start slot_consistent_stop slot_consistent_mark
      slot_consistent_connect slot_consistent_takeoff slot_consistent_land)

section \<open>Rounding to two decimals\<close>

text \<open>
  \<open>round2\<close> gives a multiple of one hundredth that is no further than half a hundredth
  from its argument.
\<close>

lemma round2_hundredths: "\<exists>k::int. round2 x = of_int k / 100"
  unfolding round2_def Let_def by (rule exI) (rule refl)

lemma round2_close: "\<bar>round2 x - x\<bar> \<le> 1 / 200"
proof -
  define f where "f = \<lfloor>x * 100\<rfloor>"
  define d where "d = x * 100 - of_int f"
  have d: "0 \<le> d" "d < 1"
    unfolding d_def f_def by linarith+
  have x: "x = (of_int f + d) / 100"
    by (simp add: d_def)
  have r: "round2 x = of_int (if d < 1 / 2 then f else if 1 / 2 < d then f + 1
                 else if even f then f else f + 1) / 100"
    by (simp add: round2_def Let_def f_def d_def)
  have "\<bar>of_int (if d < 1 / 2 then f else if 1 / 2 < d then f + 1
                 else if even f then f else f + 1) / 100 - (of_int f + d) / 100\<bar> \<le> 1 / 200"
    using d by (simp add: field_simps abs_le_iff)
  then have "\<bar>round2 x - (of_int f + d) / 100\<bar> \<le> 1 / 200"
    by (simp only: r)
  then show ?thesis
    by (simp only: x [symmetric])
qed

section \<open>Sample runs\<close>

lemma start_forward_from_fresh:
  "start_movement (sample_env 0) ''forward'' ''move'' (init ''t'') =
     (init ''t'')\<lparr>tello := [Query ''attitude?'', Query ''height?'', Query ''battery?'',
                              RcControl 0 30 0 0],
                  current_movement := Some \<lparr>mv_type = ''move'', mv_direction = ''forward'',
                     mv_start_time = 0, mv_start_yaw = 45\<rparr>,
                  add_movement := True\<rparr>"
  by (simp add: start_movement_def get_drone_state_def call_tello_def start_rc_def
      send_rc_control_def sample_env_def init_def Let_def)

lemma start_clockwise_from_fresh:
  "start_movement (sample_env 0) ''clockwise'' ''rotate'' (init ''t'') =
     (init ''t'')\<lparr>tello := [Query ''attitude?'', Query ''height?'', Query ''battery?'',
                              RcControl 0 0 0 30],
                  current_movement := Some \<lparr>mv_type = ''rotate'', mv_direction = ''clockwise'',
                     mv_start_time = 0, mv_start_yaw = 45\<rparr>\<rparr>"
  by (simp add: start_movement_def get_drone_state_def call_tello_def start_rc_def
      send_rc_control_def sample_env_def init_def Let_def)

lemma round2_sample: "round2 (30 / 7) = 429 / 100"
  by code_simp

section \<open>Movement recorder: start\<close>

text \<open>
  Claim C2. When a movement is already active, \<open>start_movement\<close> returns the controller
  as it was: the slot, the pending cluster and the waypoints are unchanged, and nothing
  is added to the calls made on the vehicle (no heading query, no velocity command). The
  slot holds one movement or none, so no second movement can become active. The warning
  goes to the console, which is outside the model.
\<close>

theorem start_rejected_when_active:
  assumes "current_movement s \<noteq> None"
  shows "start_movement e direction movement_type s = s"
  using assms by (simp add: start_movement_def)

theorem start_rejected_when_active_witness:
  "current_movement (start_movement (sample_env 0) ''forward'' ''move'' (init ''t'')) \<noteq> None
   \<and> start_movement (sample_env 5) ''left'' ''move''
         (start_movement (sample_env 0) ''forward'' ''move'' (init ''t''))
       = start_movement (sample_env 0) ''forward'' ''move'' (init ''t'')"
proof -
  have active: "current_movement (start_movement (sample_env 0) ''forward'' ''move'' (init ''t''))
      \<noteq> None"
    by (simp add: start_forward_from_fresh)
  from start_rejected_when_active [OF active] active show ?thesis by simp
qed

section \<open>Movement recorder: stop\<close>

text \<open>
  Claim C3. In a reachable state whose active movement is a rotation, \<open>stop_movement\<close>
  sends the halt command \<open>send_rc_control(0, 0, 0, 0)\<close>, clears the slot and changes
  nothing else: no event is appended to the pending cluster and the waypoints stay as they
  are, whether the halt command raises or not.
\<close>

theorem stop_discards_rotation:
  assumes "reachable s" and "current_movement s = Some m" and "mv_type m = ''rotate''"
  shows "stop_movement e s = s\<lparr>tello := tello s @ [RcControl 0 0 0 0], current_movement := None\<rparr>
         \<and> current_movement (stop_movement e s) = None
         \<and> current_waypoint_movements (stop_movement e s) = current_waypoint_movements s
         \<and> waypoints (stop_movement e s) = waypoints s"
proof -
  from assms(1) have "slot_consistent s" by (rule reachable_slot_consistent)
  with assms(2,3) have "\<not> add_movement s" by (simp add: slot_consistent_def)
  with assms(2) have "stop_movement e s =
      s\<lparr>tello := tello s @ [RcControl 0 0 0 0], current_movement := None\<rparr>"
    by (simp add: stop_movement_def halt_eq)
  then show ?thesis by simp
qed

theorem stop_discards_rotation_witness:
  "reachable (start_movement (sample_env 0) ''clockwise'' ''rotate'' (init ''t''))
   \<and> current_movement (stop_movement (sample_env 3)
         (start_movement (sample_env 0) ''clockwise'' ''rotate'' (init ''t''))) = None
   \<and> tello (stop_movement (sample_env 3)
         (start_movement (sample_env 0) ''clockwise'' ''rotate'' (init ''t'')))
       = [Query ''attitude?'', Query ''height?'', Query ''battery?'',
          RcControl 0 0 0 30, RcControl 0 0 0 0]
   \<and> current_waypoint_movements (stop_movement (sample_env 3)
         (start_movement (sample_env 0) ''clockwise'' ''rotate'' (init ''t''))) = []"
proof -
  have r: "reachable (start_movement (sample_env 0) ''clockwise'' ''rotate'' (init ''t''))"
    by (intro reachable.started reachable.fresh)
  have a: "current_movement (start_movement (sample_env 0) ''clockwise'' ''rotate'' (init ''t''))
      = Some \<lparr>mv_type = ''rotate'', mv_direction = ''clockwise'',
                     mv_start_time = 0, mv_start_yaw = 45\<rparr>"
    by (simp add: start_clockwise_from_fresh)
  have "stop_movement (sample_env 3)
         (start_movement (sample_env 0) ''clockwise'' ''rotate'' (init ''t''))
      = (start_movement (sample_env 0) ''clockwise'' ''rotate'' (init ''t''))
          \<lparr>tello := tello (start_movement (sample_env 0) ''clockwise'' ''rotate'' (init ''t''))
             @ [RcControl 0 0 0 0], current_movement := None\<rparr>"
    using stop_discards_rotation [OF r a, of "sample_env 3"] by simp
  then show ?thesis using r
    by (simp add: start_clockwise_from_fresh) (simp add: init_def)
qed

text \<open>
  Claim C4. In a reachable state, \<open>stop_movement\<close> returns the controller unchanged when
  no movement is active. When a move or a lift is active it sends the halt command,
  appends exactly one event to the pending cluster and clears the slot; the event carries
  the identifier drawn for it, the kind, direction and start heading of the movement, the
  timestamp, and the distance \<open>round(movement_speed * (end_time - start_time), 2)\<close>.
\<close>

theorem stop_records_event:
  assumes "reachable s"
  shows "(current_movement s = None \<longrightarrow> stop_movement e s = s)
       \<and> (\<forall>m. current_movement s = Some m \<and> (mv_type m = ''move'' \<or> mv_type m = ''lift'') \<longrightarrow>
            stop_movement e s =
              s\<lparr>tello := tello s @ [RcControl 0 0 0 0],
                current_waypoint_movements := current_waypoint_movements s @
                  [\<lparr>ev_id = uuid4 e, ev_type = mv_type m, ev_direction = mv_direction m,
                    ev_distance = round2 (of_int (movement_speed s) * (clock e - mv_start_time m)),
                    ev_start_yaw = mv_start_yaw m, ev_timestamp = isoformat_now e\<rparr>],
                current_movement := None\<rparr>)"
proof (intro conjI allI impI)
  assume "current_movement s = None"
  then show "stop_movement e s = s" by (simp add: stop_movement_def)
next
  fix m
  assume a: "current_movement s = Some m \<and> (mv_type m = ''move'' \<or> mv_type m = ''lift'')"
  from assms have "slot_consistent s" by (rule reachable_slot_consistent)
  with a have "add_movement s" by (auto simp: slot_consistent_def)
  with a show "stop_movement e s =
              s\<lparr>tello := tello s @ [RcControl 0 0 0 0],
                current_waypoint_movements := current_waypoint_movements s @
                  [\<lparr>ev_id = uuid4 e, ev_type = mv_type m, ev_direction = mv_direction m,
                    ev_distance = round2 (of_int (movement_speed s) * (clock e - mv_start_time m)),
                    ev_start_yaw = mv_start_yaw m, ev_timestamp = isoformat_now e\<rparr>],
                current_movement := None\<rparr>"
    by (simp add: stop_movement_def halt_eq Let_def)
qed

theorem stop_records_event_witness:
  "reachable (init ''t'')
   \<and> current_movement (init ''t'') = None
   \<and> stop_movement (sample_env 2) (init ''t'') = init ''t''
   \<and> reachable (start_movement (sample_env 0) ''forward'' ''move'' (init ''t''))
   \<and> current_movement (start_movement (sample_env 0) ''forward'' ''move'' (init ''t''))
       = Some \<lparr>mv_type = ''move'', mv_direction = ''forward'', mv_start_time = 0, mv_start_yaw = 45\<rparr>
   \<and> current_waypoint_movements (stop_movement (sample_env (1 / 7))
         (start_movement (sample_env 0) ''forward'' ''move'' (init ''t'')))
       = [\<lparr>ev_id = ''u1'', ev_type = ''move'', ev_direction = ''forward'', ev_distance = 429 / 100,
           ev_start_yaw = 45, ev_timestamp = ''2025-06-01T12:00:00''\<rparr>]
   \<and> current_movement (stop_movement (sample_env (1 / 7))
         (start_movement (sample_env 0) ''forward'' ''move'' (init ''t''))) = None"
proof -
  have r0: "reachable (init ''t'')" by (rule reachable.fresh)
  have idle: "current_movement (init ''t'') = None" by (simp add: init_def)
  have r1: "reachable (start_movement (sample_env 0) ''forward'' ''move'' (init ''t''))"
    by (intro reachable.started reachable.fresh)
  have a: "current_movement (start_movement (sample_env 0) ''forward'' ''move'' (init ''t''))
      = Some \<lparr>mv_type = ''move'', mv_direction = ''forward'', mv_start_time = 0, mv_start_yaw = 45\<rparr>"
    by (simp add: start_forward_from_fresh)
  have noop: "stop_movement (sample_env 2) (init ''t'') = init ''t''"
    using stop_records_event [OF r0, of "sample_env 2"] idle by simp
  have "stop_movement (sample_env (1 / 7))
         (start_movement (sample_env 0) ''forward'' ''move'' (init ''t''))
      = (start_movement (sample_env 0) ''forward'' ''move'' (init ''t''))
          \<lparr>tello := tello (start_movement (sample_env 0) ''forward'' ''move'' (init ''t''))
             @ [RcControl 0 0 0 0],
           current_waypoint_movements :=
             current_waypoint_movements (start_movement (sample_env 0) ''forward'' ''move'' (init ''t''))
             @ [\<lparr>ev_id = uuid4 (sample_env (1 / 7)), ev_type = ''move'', ev_direction = ''forward'',
                 ev_distance = round2 (of_int (movement_speed
                    (start_movement (sample_env 0) ''forward'' ''move'' (init ''t'')))
                    * (clock (sample_env (1 / 7)) - 0)),
                 ev_start_yaw = 45, ev_timestamp = isoformat_now (sample_env (1 / 7))\<rparr>],
           current_movement := None\<rparr>"
    using stop_records_event [OF r1, of "sample_env (1 / 7)"] a by simp
  then have "current_waypoint_movements (stop_movement (sample_env (1 / 7))
         (start_movement (sample_env 0) ''forward'' ''move'' (init ''t'')))
       = [\<lparr>ev_id = ''u1'', ev_type = ''move'', ev_direction = ''forward'', ev_distance = 429 / 100,
           ev_start_yaw = 45, ev_timestamp = ''2025-06-01T12:00:00''\<rparr>]
     \<and> current_movement (stop_movement (sample_env (1 / 7))
         (start_movement (sample_env 0) ''forward'' ''move'' (init ''t''))) = None"
    by (simp add: start_forward_from_fresh) (simp add: init_def sample_env_def round2_sample)
  with r0 idle noop r1 a show ?thesis by simp
qed

section \<open>Movement recorder: a start whose command raises\<close>

lemma send_rc_control_raises:
  "rc_raises e \<Longrightarrow> send_rc_control e a b c d s = Inl (s\<lparr>tello := tello s @ [RcControl a b c d]\<rparr>)"
  by (simp add: send_rc_control_def call_tello_def)

lemma start_rc_raises:
  "rc_raises e \<Longrightarrow>
   (movement_type = ''move'' \<and> direction \<in> {''forward'', ''backward'', ''left'', ''right''}
    \<or> movement_type = ''lift'' \<and> direction \<in> {''up'', ''down''}
    \<or> movement_type = ''rotate'' \<and> direction \<in> {''anticlockwise'', ''clockwise''})
   \<longrightarrow> isl (start_rc e direction movement_type s)"
  by (simp add: start_rc_def send_rc_control_raises Let_def)

lemma start_rc_raised_rest:
  "start_rc e direction movement_type s = Inl s' \<Longrightarrow>
     current_waypoint_movements s' = current_waypoint_movements s \<and> waypoints s' = waypoints s"
  by (auto simp: start_rc_def send_rc_control_def call_tello_def Let_def split: if_splits)

text \<open>
  Claim C10. \<open>start_movement\<close> is called with no movement active, for a kind and a
  direction that make it issue a velocity command, and \<open>send_rc_control\<close> raises. Then
  the handler has cleared the slot again, the pending cluster and the waypoints are as
  before the call, and a following \<open>stop_movement\<close> finds no movement and records nothing.
\<close>

theorem failed_start_leaves_idle:
  assumes "current_movement s = None"
    and "rc_raises e"
    and "movement_type = ''move'' \<and> direction \<in> {''forward'', ''backward'', ''left'', ''right''}
         \<or> movement_type = ''lift'' \<and> direction \<in> {''up'', ''down''}
         \<or> movement_type = ''rotate'' \<and> direction \<in> {''anticlockwise'', ''clockwise''}"
  shows "current_movement (start_movement e direction movement_type s) = None
       \<and> current_waypoint_movements (start_movement e direction movement_type s)
           = current_waypoint_movements s
       \<and> waypoints (start_movement e direction movement_type s) = waypoints s
       \<and> stop_movement e' (start_movement e direction movement_type s)
           = start_movement e direction movement_type s"
proof -
  define s2 where "s2 = (snd (get_drone_state e s))\<lparr>current_movement :=
      Some \<lparr>mv_type = movement_type, mv_direction = direction,
            mv_start_time = clock e, mv_start_yaw = ds_yaw (fst (get_drone_state e s))\<rparr>\<rparr>"
  have unfold: "start_movement e direction movement_type s =
      (case start_rc e direction movement_type s2 of
         Inr s3 \<Rightarrow> s3 | Inl s3 \<Rightarrow> s3\<lparr>current_movement := None\<rparr>)"
    using assms(1) by (simp add: start_movement_def s2_def split_beta Let_def)
  from start_rc_raises [OF assms(2)] assms(3)
  have "isl (start_rc e direction movement_type s2)" by (rule mp)
  then obtain s3 where raised: "start_rc e direction movement_type s2 = Inl s3"
    by (cases "start_rc e direction movement_type s2") simp_all
  then have result: "start_movement e direction movement_type s = s3\<lparr>current_movement := None\<rparr>"
    by (simp add: unfold)
  have "current_waypoint_movements s2 = current_waypoint_movements s" "waypoints s2 = waypoints s"
    by (simp_all add: s2_def get_drone_state_def call_tello_def Let_def)
  with start_rc_raised_rest [OF raised]
  have "current_movement (start_movement e direction movement_type s) = None
       \<and> current_waypoint_movements (start_movement e direction movement_type s)
           = current_waypoint_movements s
       \<and> waypoints (start_movement e direction movement_type s) = waypoints s"
    by (simp add: result)
  then show ?thesis by (simp add: stop_movement_def)
qed

theorem failed_start_leaves_idle_witness:
  "current_movement (init ''t'') = None
   \<and> rc_raises ((sample_env 0)\<lparr>rc_raises := True\<rparr>)
   \<and> current_movement (start_movement ((sample_env 0)\<lparr>rc_raises := True\<rparr>) ''left'' ''move'' (init ''t''))
       = None
   \<and> current_waypoint_movements
        (start_movement ((sample_env 0)\<lparr>rc_raises := True\<rparr>) ''left'' ''move'' (init ''t'')) = []
   \<and> stop_movement (sample_env 1)
        (start_movement ((sample_env 0)\<lparr>rc_raises := True\<rparr>) ''left'' ''move'' (init ''t''))
       = start_movement ((sample_env 0)\<lparr>rc_raises := True\<rparr>) ''left'' ''move'' (init ''t'')"
proof -
  have idle: "current_movement (init ''t'') = None" by (simp add: init_def)
  have raises: "rc_raises ((sample_env 0)\<lparr>rc_raises := True\<rparr>)" by simp
  have cluster: "current_waypoint_movements (init ''t'') = []" by (simp add: init_def)
  have combo: "''move'' = ''move'' \<and> ''left'' \<in> {''forward'', ''backward'', ''left'', ''right''}
         \<or> ''move'' = ''lift'' \<and> ''left'' \<in> {''up'', ''down''}
         \<or> ''move'' = ''rotate'' \<and> ''left'' \<in> {''anticlockwise'', ''clockwise''}"
    by simp
  from failed_start_leaves_idle [OF idle raises combo, of "sample_env 1"]
    idle raises cluster
  show ?thesis by simp
qed

section \<open>Session serializer: reading the document\<close>

lemma doc_waypoints_session_data:
  "doc_waypoints (session_data s) = map process_waypoint (waypoints s)"
  by (simp add: doc_waypoints_def session_data_def)

lemma doc_movements_process_waypoint:
  "doc_movements (process_waypoint wp) = map process_movement (movements_to_here wp)"
  by (simp add: doc_movements_def process_waypoint_def)

section \<open>Session serializer: the resultant heading of a Move\<close>

lemma move_yaw_offset:
  "ev_direction ev \<in> {''forward'', ''backward'', ''left'', ''right''} \<longrightarrow>
     move_yaw ev =
       (let t = ev_start_yaw ev + offset (ev_direction ev)
        in if 180 < t then t - 360 else if t < - 180 then t + 360 else t)"
  by (simp add: move_yaw_def offset_def Let_def)

text \<open>
  Claim C1, as amended. For a recorded event of kind move whose start heading lies in
  [-180,180] and whose direction is forward, backward, left or right, the heading written
  under \<open>yaw\<close> is the start heading plus the offset of the direction, less 360 when that
  sum is above 180 and plus 360 when it is below -180. It lies in the closed interval
  [-180,180]: the sum -180 is not below -180 and is written as it is.
\<close>

theorem resultant_heading:
  assumes "ev_type ev = ''move''"
    and "ev_start_yaw ev \<in> {- 180..180}"
    and "ev_direction ev \<in> {''forward'', ''backward'', ''left'', ''right''}"
  shows "field ''yaw'' (process_movement ev) = Some (JInt (move_yaw ev))
       \<and> move_yaw ev =
           (let t = ev_start_yaw ev + offset (ev_direction ev)
            in if 180 < t then t - 360 else if t < - 180 then t + 360 else t)
       \<and> move_yaw ev \<in> {- 180..180}
       \<and> (move_yaw ev = - 180 \<longleftrightarrow> ev_start_yaw ev + offset (ev_direction ev) = - 180)"
proof -
  have stored: "field ''yaw'' (process_movement ev) = Some (JInt (move_yaw ev))"
    using assms(1) by (simp add: process_movement_def)
  from move_yaw_offset assms(3) have eq: "move_yaw ev =
           (let t = ev_start_yaw ev + offset (ev_direction ev)
            in if 180 < t then t - 360 else if t < - 180 then t + 360 else t)"
    by (rule mp)
  have "offset (ev_direction ev) \<in> {- 90, 0, 90, 180}"
    by (simp add: offset_def)
  then have bounds: "- 270 \<le> ev_start_yaw ev + offset (ev_direction ev)"
      "ev_start_yaw ev + offset (ev_direction ev) \<le> 360"
    using assms(2) by auto
  have "move_yaw ev \<in> {- 180..180}"
    using bounds by (simp add: eq Let_def)
  moreover have "move_yaw ev = - 180 \<longleftrightarrow> ev_start_yaw ev + offset (ev_direction ev) = - 180"
    using bounds by (simp add: eq Let_def)
  ultimately show ?thesis using stored eq by simp
qed

theorem resultant_heading_witness:
  "ev_type sample_move = ''move''
   \<and> ev_start_yaw sample_move \<in> {- 180..180}
   \<and> ev_direction sample_move \<in> {''forward'', ''backward'', ''left'', ''right''}
   \<and> field ''yaw'' (process_movement sample_move) = Some (JInt (- 100))
   \<and> move_yaw sample_move \<in> {- 180..180}"
proof -
  have a: "ev_type sample_move = ''move''" by (simp add: sample_move_def)
  have b: "ev_start_yaw sample_move \<in> {- 180..180}" by (simp add: sample_move_def)
  have c: "ev_direction sample_move \<in> {''forward'', ''backward'', ''left'', ''right''}"
    by (simp add: sample_move_def)
  have "move_yaw sample_move = - 100"
    using resultant_heading [OF a b c] by (simp add: sample_move_def offset_def)
  with resultant_heading [OF a b c] a b c show ?thesis by simp
qed

text \<open>
  The claim as worded asks for the half-open interval (-180,180]. A move to the left
  started at heading -90 is written with heading -180.
\<close>

theorem heading_half_open_counterexample:
  "ev_type boundary_move = ''move''
   \<and> ev_start_yaw boundary_move \<in> {- 180..180}
   \<and> ev_direction boundary_move = ''left''
   \<and> field ''yaw'' (process_movement boundary_move) = Some (JInt (- 180))
   \<and> move_yaw boundary_move \<notin> {- 180<..180}"
  by (simp add: boundary_move_def process_movement_def move_yaw_def)

section \<open>Session serializer: the fields of a persisted record\<close>

lemma persisted_record:
  assumes "i < length (doc_waypoints (session_data s))"
    and "j < length (doc_movements (doc_waypoints (session_data s) ! i))"
  shows "i < length (waypoints s)"
    and "j < length (movements_to_here (waypoints s ! i))"
    and "doc_movements (doc_waypoints (session_data s) ! i) ! j
         = process_movement (movements_to_here (waypoints s ! i) ! j)"
proof -
  from assms(1) show i: "i < length (waypoints s)"
    by (simp add: doc_waypoints_session_data)
  then have wp: "doc_waypoints (session_data s) ! i = process_waypoint (waypoints s ! i)"
    by (simp add: doc_waypoints_session_data)
  with assms(2) show j: "j < length (movements_to_here (waypoints s ! i))"
    by (simp add: doc_movements_process_waypoint)
  then show "doc_movements (doc_waypoints (session_data s) ! i) ! j
         = process_movement (movements_to_here (waypoints s ! i) ! j)"
    by (simp add: wp doc_movements_process_waypoint)
qed

lemma process_movement_move:
  "ev_type ev = ''move'' \<Longrightarrow>
     keys (process_movement ev) = [''id'', ''type'', ''yaw'', ''distance'', ''timestamp'']
     \<and> field ''id'' (process_movement ev) = Some (JStr (ev_id ev))
     \<and> field ''type'' (process_movement ev) = Some (JStr ''move'')
     \<and> field ''yaw'' (process_movement ev) = Some (JInt (move_yaw ev))
     \<and> field ''distance'' (process_movement ev) = Some (JNum (ev_distance ev))
     \<and> field ''timestamp'' (process_movement ev) = Some (JStr (ev_timestamp ev))
     \<and> field ''direction'' (process_movement ev) = None
     \<and> field ''start_yaw'' (process_movement ev) = None"
  by (simp add: process_movement_def)

lemma process_movement_lift:
  "ev_type ev = ''lift'' \<Longrightarrow>
     keys (process_movement ev) = [''id'', ''type'', ''direction'', ''distance'', ''timestamp'']
     \<and> field ''id'' (process_movement ev) = Some (JStr (ev_id ev))
     \<and> field ''type'' (process_movement ev) = Some (JStr ''lift'')
     \<and> field ''direction'' (process_movement ev) = Some (JStr (ev_direction ev))
     \<and> field ''distance'' (process_movement ev) = Some (JNum (ev_distance ev))
     \<and> field ''timestamp'' (process_movement ev) = Some (JStr (ev_timestamp ev))"
  by (simp add: process_movement_def)

text \<open>
  Claim C5. Take any record of the serialized document, the \<open>j\<close>-th of the \<open>i\<close>-th
  waypoint, and the recorded event at the same place. If the event is a move, the record
  has exactly the keys id, type, yaw, distance, timestamp, in this order, with the
  event's id, distance and timestamp and the resultant heading; it has no key direction
  and no key start_yaw. If the event is a lift, the record has exactly the keys id, type,
  direction, distance, timestamp, with the event's direction and distance unchanged.
\<close>

theorem persisted_fields:
  assumes "i < length (doc_waypoints (session_data s))"
    and "j < length (doc_movements (doc_waypoints (session_data s) ! i))"
    and "r = doc_movements (doc_waypoints (session_data s) ! i) ! j"
    and "ev = movements_to_here (waypoints s ! i) ! j"
  shows "(ev_type ev = ''move'' \<longrightarrow>
            keys r = [''id'', ''type'', ''yaw'', ''distance'', ''timestamp'']
          \<and> field ''id'' r = Some (JStr (ev_id ev))
          \<and> field ''type'' r = Some (JStr ''move'')
          \<and> field ''yaw'' r = Some (JInt (move_yaw ev))
          \<and> field ''distance'' r = Some (JNum (ev_distance ev))
          \<and> field ''timestamp'' r = Some (JStr (ev_timestamp ev))
          \<and> field ''direction'' r = None
          \<and> field ''start_yaw'' r = None)
       \<and> (ev_type ev = ''lift'' \<longrightarrow>
            keys r = [''id'', ''type'', ''direction'', ''distance'', ''timestamp'']
          \<and> field ''id'' r = Some (JStr (ev_id ev))
          \<and> field ''type'' r = Some (JStr ''lift'')
          \<and> field ''direction'' r = Some (JStr (ev_direction ev))
          \<and> field ''distance'' r = Some (JNum (ev_distance ev))
          \<and> field ''timestamp'' r = Some (JStr (ev_timestamp ev)))"
proof -
  from persisted_record(3) [OF assms(1,2)] assms(3,4) have r: "r = process_movement ev"
    by simp
  show ?thesis
    unfolding r
    by (rule conjI; rule impI; (erule process_movement_move | erule process_movement_lift))
qed

theorem persisted_fields_witness:
  "1 < length (doc_waypoints (session_data sample_session))
   \<and> 1 < length (doc_movements (doc_waypoints (session_data sample_session) ! 1))
   \<and> ev_type (movements_to_here (waypoints sample_session ! 1) ! 0) = ''move''
   \<and> keys (doc_movements (doc_waypoints (session_data sample_session) ! 1) ! 0)
       = [''id'', ''type'', ''yaw'', ''distance'', ''timestamp'']
   \<and> field ''yaw'' (doc_movements (doc_waypoints (session_data sample_session) ! 1) ! 0)
       = Some (JInt (- 100))
   \<and> ev_type (movements_to_here (waypoints sample_session ! 1) ! 1) = ''lift''
   \<and> keys (doc_movements (doc_waypoints (session_data sample_session) ! 1) ! 1)
       = [''id'', ''type'', ''direction'', ''distance'', ''timestamp'']
   \<and> field ''direction'' (doc_movements (doc_waypoints (session_data sample_session) ! 1) ! 1)
       = Some (JStr ''up'')
   \<and> field ''distance'' (doc_movements (doc_waypoints (session_data sample_session) ! 1) ! 1)
       = Some (JNum 20)"
proof -
  have i: "1 < length (doc_waypoints (session_data sample_session))"
    by (simp add: doc_waypoints_session_data sample_session_def)
  have j1: "1 < length (doc_movements (doc_waypoints (session_data sample_session) ! 1))"
    by (simp add: doc_waypoints_session_data doc_movements_process_waypoint sample_session_def)
  have j0: "0 < length (doc_movements (doc_waypoints (session_data sample_session) ! 1))"
    by (simp add: doc_waypoints_session_data doc_movements_process_waypoint sample_session_def)
  have e0: "movements_to_here (waypoints sample_session ! 1) ! 0 = sample_move"
    and e1: "movements_to_here (waypoints sample_session ! 1) ! 1 = sample_lift"
    by (simp_all add: sample_session_def)
  have t0: "ev_type sample_move = ''move''" and t1: "ev_type sample_lift = ''lift''"
    by (simp_all add: sample_move_def sample_lift_def)
  have y: "move_yaw sample_move = - 100"
    by (simp add: move_yaw_def sample_move_def)
  have l: "ev_direction sample_lift = ''up''" "ev_distance sample_lift = 20"
    by (simp_all add: sample_lift_def)
  from persisted_fields [OF i j0 refl e0 [symmetric]] t0
  have m: "keys (doc_movements (doc_waypoints (session_data sample_session) ! 1) ! 0)
       = [''id'', ''type'', ''yaw'', ''distance'', ''timestamp'']
     \<and> field ''yaw'' (doc_movements (doc_waypoints (session_data sample_session) ! 1) ! 0)
       = Some (JInt (- 100))"
    by (simp add: y)
  from persisted_fields [OF i j1 refl e1 [symmetric]] t1
  have f: "keys (doc_movements (doc_waypoints (session_data sample_session) ! 1) ! 1)
       = [''id'', ''type'', ''direction'', ''distance'', ''timestamp'']
     \<and> field ''direction'' (doc_movements (doc_waypoints (session_data sample_session) ! 1) ! 1)
       = Some (JStr ''up'')
     \<and> field ''distance'' (doc_movements (doc_waypoints (session_data sample_session) ! 1) ! 1)
       = Some (JNum 20)"
    by (simp add: l)
  from e0 t0 have t0': "ev_type (movements_to_here (waypoints sample_session ! 1) ! 0) = ''move''"
    by simp
  from e1 t1 have t1': "ev_type (movements_to_here (waypoints sample_session ! 1) ! 1) = ''lift''"
    by simp
  from i j1 t0' m t1' f show ?thesis by (intro conjI) (elim conjE, assumption)+
qed

section \<open>Session serializer: the summary counts\<close>

lemma count_processed_movements:
  "sum_list (map (\<lambda>wp. length (doc_movements wp)) (map process_waypoint ws))
   = sum_list (map (\<lambda>wp. length (movements_to_here wp)) ws)"
  by (induction ws) (simp_all add: doc_movements_process_waypoint)

text \<open>
  Claim C8. In the serialized document, \<open>total_waypoints\<close> is the number of waypoints
  in its list \<open>waypoints\<close> (as many as the controller holds), and \<open>total_movements\<close>
  is the sum of the lengths of their lists \<open>movements_to_here\<close>.
\<close>

theorem summary_counts:
  "doc_info ''total_waypoints'' (session_data s)
     = Some (JInt (int (length (doc_waypoints (session_data s)))))
   \<and> doc_info ''total_movements'' (session_data s)
     = Some (JInt (int (sum_list (map (\<lambda>wp. length (doc_movements wp))
                                    (doc_waypoints (session_data s))))))
   \<and> length (doc_waypoints (session_data s)) = length (waypoints s)"
  unfolding doc_waypoints_session_data count_processed_movements
  by (simp add: doc_info_def session_data_def)

theorem summary_counts_witness:
  "doc_info ''total_waypoints'' (session_data sample_session) = Some (JInt 2)
   \<and> doc_info ''total_movements'' (session_data sample_session) = Some (JInt 2)
   \<and> map (\<lambda>wp. length (doc_movements wp)) (doc_waypoints (session_data sample_session)) = [0, 2]"
proof -
  have "map (\<lambda>wp. length (doc_movements wp)) (doc_waypoints (session_data sample_session)) = [0, 2]"
    by (simp add: doc_waypoints_session_data doc_movements_process_waypoint sample_session_def)
  moreover have "length (doc_waypoints (session_data sample_session)) = 2"
    by (simp add: doc_waypoints_session_data sample_session_def)
  ultimately show ?thesis using summary_counts [of sample_session] by simp
qed

section \<open>Backward traversal: inverting twice\<close>

lemma normalize_heading_range: "- 180 < normalize_heading h \<and> normalize_heading h \<le> 180"
proof -
  have "0 \<le> (180 - h) mod 360" "(180 - h) mod 360 < 360" by simp_all
  then show ?thesis unfolding normalize_heading_def by linarith
qed

lemma normalize_heading_same_direction: "(normalize_heading h - h) mod 360 = 0"
proof -
  have "normalize_heading h - h = (180 - h) - (180 - h) mod 360"
    by (simp add: normalize_heading_def)
  also have "\<dots> = 360 * ((180 - h) div 360)"
    by (simp add: minus_mod_eq_mult_div)
  finally show ?thesis by simp
qed

lemma normalize_heading_id: "- 180 < h \<Longrightarrow> h \<le> 180 \<Longrightarrow> normalize_heading h = h"
  by (simp add: normalize_heading_def)

lemma normalize_heading_above:
  assumes "180 < h" and "h \<le> 540"
  shows "normalize_heading h = h - 360"
proof -
  have "(180 - h) mod 360 = (180 - h + 360) mod 360"
    by (simp only: mod_add_self2)
  also have "\<dots> = 180 - h + 360"
    using assms by (intro mod_pos_pos_trivial) simp_all
  finally show ?thesis by (simp add: normalize_heading_def)
qed

lemma turn_twice:
  assumes "- 180 < h" and "h \<le> 180"
  shows "normalize_heading (normalize_heading (h + 180) + 180) = h"
proof (cases "h \<le> 0")
  case True
  with assms have "normalize_heading (h + 180) = h + 180"
    by (intro normalize_heading_id) simp_all
  moreover from True assms have "normalize_heading (h + 180 + 180) = h + 180 + 180 - 360"
    by (intro normalize_heading_above) simp_all
  ultimately show ?thesis by simp
next
  case False
  with assms have "normalize_heading (h + 180) = h + 180 - 360"
    by (intro normalize_heading_above) simp_all
  moreover from False assms have "normalize_heading (h + 180 - 360 + 180) = h + 180 - 360 + 180"
    by (intro normalize_heading_id) simp_all
  ultimately show ?thesis by simp
qed

lemma flip_twice: "flip (flip d) = d"
  by (cases d) simp_all

lemma normalize_heading_periodic: "normalize_heading (h + 360 * k) = normalize_heading h"
proof -
  have "(180 - (h + 360 * k)) mod 360 = ((180 - h) + 360 * (- k)) mod 360"
    by (simp add: algebra_simps)
  also have "\<dots> = (180 - h) mod 360"
    by (rule mod_mult_self2)
  finally show ?thesis by (simp add: normalize_heading_def)
qed

lemma normalize_heading_shift: "normalize_heading h = h + 360 * ((180 - h) div 360)"
proof -
  have "(180 - h) mod 360 = (180 - h) - 360 * ((180 - h) div 360)"
    by (simp add: minus_mult_div_eq_mod)
  then show ?thesis by (simp add: normalize_heading_def)
qed

lemma turn_twice_any:
  "normalize_heading (normalize_heading (h + 180) + 180) = normalize_heading h"
proof -
  define k where "k = (180 - (h + 180)) div 360"
  have "normalize_heading (h + 180) + 180 = h + 360 * (k + 1)"
    unfolding k_def by (subst normalize_heading_shift) (simp add: algebra_simps)
  then show ?thesis by (simp only: normalize_heading_periodic)
qed

text \<open>
  Claim C7, as amended. Inverting an event twice gives the event back when its heading,
  if it is a Move, lies in (-180,180], and for a Lift always. For any heading, inverting
  twice gives the same direction written in (-180,180], so the heading -180 comes back
  as 180. The distance is unchanged by one inversion and by two, and an inverted event
  has its heading in (-180,180].
\<close>

theorem double_inversion:
  "(well_formed ev \<longrightarrow> invert (invert ev) = ev)
   \<and> invert (invert ev) = canonical ev
   \<and> distance_of (invert ev) = distance_of ev
   \<and> distance_of (invert (invert ev)) = distance_of ev
   \<and> well_formed (invert ev)"
  by (cases ev) (simp_all add: turn_twice_any normalize_heading_id flip_twice normalize_heading_range)

theorem double_inversion_witness:
  "well_formed (Move ''e1'' 90 30 ''t1'')
   \<and> invert (Move ''e1'' 90 30 ''t1'') = Move ''e1'' (- 90) 30 ''t1''
   \<and> invert (invert (Move ''e1'' 90 30 ''t1'')) = Move ''e1'' 90 30 ''t1''
   \<and> well_formed (Lift ''e2'' Up 20 ''t2'')
   \<and> invert (Lift ''e2'' Up 20 ''t2'') = Lift ''e2'' Down 20 ''t2''
   \<and> invert (invert (Lift ''e2'' Up 20 ''t2'')) = Lift ''e2'' Up 20 ''t2''"
proof -
  have m: "well_formed (Move ''e1'' 90 30 ''t1'')" by simp
  have l: "well_formed (Lift ''e2'' Up 20 ''t2'')" by simp
  have "invert (Move ''e1'' 90 30 ''t1'') = Move ''e1'' (- 90) 30 ''t1''"
    by (simp add: normalize_heading_def)
  moreover have "invert (Lift ''e2'' Up 20 ''t2'') = Lift ''e2'' Down 20 ''t2''"
    by simp
  moreover have "invert (invert (Move ''e1'' 90 30 ''t1'')) = Move ''e1'' 90 30 ''t1''"
    using double_inversion [of "Move ''e1'' 90 30 ''t1''"] m by blast
  moreover have "invert (invert (Lift ''e2'' Up 20 ''t2'')) = Lift ''e2'' Up 20 ''t2''"
    using double_inversion [of "Lift ''e2'' Up 20 ''t2''"] l by blast
  ultimately show ?thesis using m l by (intro conjI)
qed

text \<open>
  The claim as worded speaks of every Move event. The recorder writes the heading -180
  for a move to the left started at heading -90, and inverting that event twice gives
  the heading 180, not -180.
\<close>

theorem double_inversion_counterexample:
  "field ''yaw'' (process_movement boundary_move) = Some (JInt (- 180))
   \<and> invert (invert (Move ''e0'' (- 180) 45 ''2025-06-01T12:00:00''))
       = Move ''e0'' 180 45 ''2025-06-01T12:00:00''
   \<and> invert (invert (Move ''e0'' (- 180) 45 ''2025-06-01T12:00:00''))
       \<noteq> Move ''e0'' (- 180) 45 ''2025-06-01T12:00:00''"
  by (simp add: boundary_move_def process_movement_def move_yaw_def normalize_heading_def)

section \<open>The first waypoint of a session\<close>

lemma pad3_one: "pad3 (Suc 0) = ''001''"
  by code_simp

lemma mark_waypoint_waypoints:
  "\<exists>wp. waypoints (mark_waypoint e name auto_generated s) = waypoints s @ [wp]"
  by (simp add: mark_waypoint_def Let_def)

lemma start_rc_waypoints:
  "waypoints (case start_rc e direction movement_type s of Inl a \<Rightarrow> a | Inr b \<Rightarrow> b) = waypoints s"
  by (simp add: start_rc_def send_rc_control_def call_tello_def Let_def)

lemma start_movement_waypoints:
  "waypoints (start_movement e direction movement_type s) = waypoints s"
proof (cases "current_movement s")
  case (Some m)
  then show ?thesis by (simp add: start_movement_def)
next
  case None
  define s2 where "s2 = (snd (get_drone_state e s))\<lparr>current_movement :=
      Some \<lparr>mv_type = movement_type, mv_direction = direction,
            mv_start_time = clock e, mv_start_yaw = ds_yaw (fst (get_drone_state e s))\<rparr>\<rparr>"
  have unfold: "start_movement e direction movement_type s =
      (case start_rc e direction movement_type s2 of
         Inr s3 \<Rightarrow> s3 | Inl s3 \<Rightarrow> s3\<lparr>current_movement := None\<rparr>)"
    using None by (simp add: start_movement_def s2_def split_beta Let_def)
  have "waypoints s2 = waypoints s"
    by (simp add: s2_def get_drone_state_def call_tello_def Let_def)
  with start_rc_waypoints [of e direction movement_type s2] show ?thesis
    by (cases "start_rc e direction movement_type s2") (simp_all add: unfold)
qed

lemma stop_movement_waypoints: "waypoints (stop_movement e s) = waypoints s"
  by (simp add: stop_movement_def halt_eq Let_def split: option.splits)

lemma land_waypoints: "waypoints (land e s) = waypoints s"
  by (simp add: land_def call_tello_def Let_def)

lemma connect_drone_succeeded:
  "connect_drone e s = (True, s') \<Longrightarrow>
     s' = (call_tello (Query ''battery?'') (call_tello Connect s))\<lparr>is_connected := True\<rparr>"
  by (simp add: connect_drone_def Let_def split: if_splits)

lemma takeoff_succeeded:
  "takeoff e s = (True, s') \<Longrightarrow>
     s' = mark_waypoint e (Some ''START'') True ((call_tello Takeoff s)\<lparr>is_flying := True\<rparr>)"
  by (simp add: takeoff_def Let_def split: if_splits)

lemma mark_start_waypoints:
  "waypoints (mark_waypoint e (Some ''START'') True s) =
     waypoints s @ [\<lparr>wp_id = ''WP_'' @ pad3 (waypoint_counter s + 1), wp_name = ''START'',
                      movements_to_here = current_waypoint_movements s\<rparr>]"
  by (simp add: mark_waypoint_def Let_def)

lemma takeoff_marks_origin:
  assumes "connect_drone e1 (init stamp) = (True, s0)" and "takeoff e2 s0 = (True, s)"
  shows "waypoints s = [origin]"
proof -
  have "waypoints s0 = []" "current_waypoint_movements s0 = []" "waypoint_counter s0 = 0"
    unfolding connect_drone_succeeded [OF assms(1)]
    by (simp_all add: call_tello_def init_def)
  then show ?thesis
    unfolding takeoff_succeeded [OF assms(2)] mark_start_waypoints
    by (simp add: call_tello_def origin_def pad3_one)
qed

text \<open>
  Claim C9. In every state of a mapping session the list of waypoints begins with the
  waypoint marked by the successful takeoff: its id is WP_001, its name is START and its
  list of movements is empty. Later calls only append to the list, so no waypoint and no
  movement comes before it.
\<close>

theorem first_waypoint_is_origin:
  assumes "session s"
  shows "\<exists>rest. waypoints s = origin # rest"
  using assms
proof (induction rule: session.induct)
  case (airborne e1 stamp s0 e2 s)
  then show ?case by (simp add: takeoff_marks_origin)
next
  case (marking s e name auto_generated)
  then obtain rest where "waypoints s = origin # rest" by blast
  moreover obtain wp where "waypoints (mark_waypoint e name auto_generated s) = waypoints s @ [wp]"
    using mark_waypoint_waypoints by blast
  ultimately show ?case by simp
qed (simp_all add: start_movement_waypoints stop_movement_waypoints land_waypoints)

theorem first_waypoint_is_origin_witness:
  "session (snd (takeoff (sample_env 0) (snd (connect_drone (sample_env 0) (init ''t'')))))
   \<and> hd (waypoints (mark_waypoint (sample_env 9) None False
         (stop_movement (sample_env 2)
           (start_movement (sample_env 1) ''forward'' ''move''
             (snd (takeoff (sample_env 0) (snd (connect_drone (sample_env 0) (init ''t''))))))))) = origin"
proof -
  have c: "connect_drone (sample_env 0) (init ''t'')
      = (True, snd (connect_drone (sample_env 0) (init ''t'')))"
    by (simp add: connect_drone_def sample_env_def Let_def)
  have t: "takeoff (sample_env 0) (snd (connect_drone (sample_env 0) (init ''t'')))
      = (True, snd (takeoff (sample_env 0) (snd (connect_drone (sample_env 0) (init ''t'')))))"
    by (simp add: takeoff_def connect_drone_def sample_env_def Let_def)
  have s: "session (snd (takeoff (sample_env 0) (snd (connect_drone (sample_env 0) (init ''t'')))))"
    using c t by (rule session.airborne)
  from first_waypoint_is_origin [OF session.marking [OF session.stopping [OF session.moving [OF s]]],
      of "sample_env 9" None False "sample_env 2" "sample_env 1" "''forward''" "''move''"]
  obtain rest where "waypoints (mark_waypoint (sample_env 9) None False
         (stop_movement (sample_env 2)
           (start_movement (sample_env 1) ''forward'' ''move''
             (snd (takeoff (sample_env 0) (snd (connect_drone (sample_env 0) (init ''t'')))))))) = origin # rest"
    by blast
  then show ?thesis using s by simp
qed

section \<open>Session serializer: writing the file\<close>

lemma data_file_sample_session: "data_file sample_session = ''drone_movements_t.json''"
  by (simp add: sample_session_def init_def)

text \<open>
  Claim C6, as amended. \<open>save_to_json\<close> builds the document, with the keys
  \<open>session_info\<close> and \<open>waypoints\<close> and the waypoints in their order, and writes it to
  \<open>data_file\<close>. It returns normally whatever happens to the file: a failure to open or
  to write is caught and reported on the console only. When the file cannot be opened,
  the files are as before; when the write succeeds, the file holds the whole document; no
  other file is touched in any case.
\<close>

theorem save_to_json_outcomes:
  "(\<exists>fs'. save_to_json io s fs = Inr fs' \<and> (\<forall>p. p \<noteq> data_file s \<longrightarrow> fs' p = fs p))
   \<and> save_to_json OpenRaises s fs = Inr fs
   \<and> save_to_json WriteOk s fs = Inr (fs(data_file s \<mapsto> Whole (session_data s)))
   \<and> keys (session_data s) = [''session_info'', ''waypoints'']
   \<and> doc_waypoints (session_data s) = map process_waypoint (waypoints s)"
proof -
  have "\<exists>fs'. save_to_json io s fs = Inr fs' \<and> (\<forall>p. p \<noteq> data_file s \<longrightarrow> fs' p = fs p)"
    by (cases io) (simp_all add: save_to_json_def dump_to_file_def)
  moreover have "save_to_json OpenRaises s fs = Inr fs"
    by (simp add: save_to_json_def dump_to_file_def)
  moreover have "save_to_json WriteOk s fs = Inr (fs(data_file s \<mapsto> Whole (session_data s)))"
    by (simp add: save_to_json_def dump_to_file_def)
  moreover have "keys (session_data s) = [''session_info'', ''waypoints'']"
    by (simp add: session_data_def)
  ultimately show ?thesis by (simp add: doc_waypoints_session_data)
qed

theorem save_to_json_outcomes_witness:
  "save_to_json OpenRaises sample_session no_files = Inr no_files
   \<and> save_to_json WriteOk sample_session no_files
       = Inr (no_files(''drone_movements_t.json'' \<mapsto> Whole (session_data sample_session)))
   \<and> length (doc_waypoints (session_data sample_session)) = 2"
proof -
  have "length (map process_waypoint (waypoints sample_session)) = 2"
    by (simp add: sample_session_def)
  with save_to_json_outcomes [of WriteOk sample_session no_files] show ?thesis
    by (simp add: data_file_sample_session)
qed

text \<open>
  The claim as worded asks for a storage error when the destination cannot be written,
  and for no partial file after a failure. Here the open fails and the call returns
  normally; and a write that raises after 40 characters leaves those 40 characters in
  the file.
\<close>

theorem write_all_or_nothing_counterexample:
  "save_to_json OpenRaises sample_session no_files \<noteq> Inl StorageError
   \<and> save_to_json (WriteRaises 40) sample_session no_files
       = Inr (no_files(''drone_movements_t.json'' \<mapsto> Prefix 40 (session_data sample_session)))"
  by (simp add: save_to_json_def dump_to_file_def data_file_sample_session)

end
